theory Spec2Isabelle
  imports Complex_Main
begin

section \<open>Zen Writer: the editor component and the model client\<close>

text \<open>
  The development embeds \<^verbatim>\<open>AppComponent\<close> (app.component.ts), \<^verbatim>\<open>GeminiService\<close>
  (gemini.service.ts) and the interfaces of analysis.model.ts.

  A JavaScript string is a sequence of code units. The model uses \<^typ>\<open>string\<close>, whose
  characters are the code units below 256 (Latin-1); \<open>length\<close> is the \<^verbatim>\<open>.length\<close> of
  such a string.
\<close>

subsection \<open>String primitives of the language\<close>

text \<open>
  \<^verbatim>\<open>String.prototype.trim\<close> removes white space and line terminators from both ends.
  Below 256 these are TAB, LF, VT, FF, CR, SPACE and NBSP.
\<close>

definition is_white_space :: "char \<Rightarrow> bool" where
  "is_white_space c \<longleftrightarrow>
     c \<in> set [CHR 0x09, CHR 0x0A, CHR 0x0B, CHR 0x0C, CHR 0x0D, CHR 0x20, CHR 0xA0]"

definition trim :: "string \<Rightarrow> string" where
  "trim s = rev (dropWhile is_white_space (rev (dropWhile is_white_space s)))"

text \<open>
  \<^verbatim>\<open>String.prototype.toLowerCase\<close>: below 256 the letters with a lower-case partner are
  A..Z and the Latin-1 capitals 0xC0..0xDE without the multiplication sign 0xD7; the
  partner is 32 code units higher.
\<close>

definition toLowerCase_char :: "char \<Rightarrow> char" where
  "toLowerCase_char c =
     (let n = (of_char c :: nat)
      in if (65 \<le> n \<and> n \<le> 90) \<or> (192 \<le> n \<and> n \<le> 222 \<and> n \<noteq> 215)
         then char_of (n + 32) else c)"

definition toLowerCase :: "string \<Rightarrow> string" where
  "toLowerCase s = map toLowerCase_char s"

text \<open>\<^verbatim>\<open>s.replace(/\n/g, '<br>')\<close>: every line feed becomes a line-break tag.\<close>

definition newlines_to_br :: "string \<Rightarrow> string" where
  "newlines_to_br s = concat (map (\<lambda>c. if c = CHR 0x0A then ''<br>'' else [c]) s)"

text \<open>
  \<^verbatim>\<open>content.replace(pattern, replacement)\<close> with two strings. The first occurrence
  of the pattern is located (\<open>split_first\<close> returns the text before and after it), and
  the replacement is not inserted as it stands: the language expands in it the
  sequences \<^verbatim>\<open>$$\<close> (a dollar sign), \<^verbatim>\<open>$&\<close> (the matched text), \<^verbatim>\<open>$`\<close> (the text before
  the match) and \<^verbatim>\<open>$'\<close> (the text after it). With a string pattern there are no capture
  groups, so \<^verbatim>\<open>$1\<close>, \<^verbatim>\<open>$<\<close> and a dollar sign before anything else stay as written.
\<close>

fun is_prefix :: "string \<Rightarrow> string \<Rightarrow> bool" where
  "is_prefix [] ys = True"
| "is_prefix (x # xs) [] = False"
| "is_prefix (x # xs) (y # ys) = (x = y \<and> is_prefix xs ys)"

fun split_first :: "string \<Rightarrow> string \<Rightarrow> (string \<times> string) option" where
  "split_first pat [] = (if pat = [] then Some ([], []) else None)"
| "split_first pat (c # cs) =
     (if is_prefix pat (c # cs) then Some ([], drop (length pat) (c # cs))
      else (case split_first pat cs of
              None \<Rightarrow> None
            | Some (pre, post) \<Rightarrow> Some (c # pre, post)))"

fun getSubstitution :: "string \<Rightarrow> string \<Rightarrow> string \<Rightarrow> string \<Rightarrow> string" where
  "getSubstitution matched pre post [] = []"
| "getSubstitution matched pre post [c] = [c]"
| "getSubstitution matched pre post (c # d # rest) =
     (if c = CHR ''$'' \<and> d = CHR ''$'' then CHR ''$'' # getSubstitution matched pre post rest
      else if c = CHR ''$'' \<and> d = CHR ''&'' then matched @ getSubstitution matched pre post rest
      else if c = CHR ''$'' \<and> d = CHR 0x60 then pre @ getSubstitution matched pre post rest
      else if c = CHR ''$'' \<and> d = CHR 0x27 then post @ getSubstitution matched pre post rest
      else c # getSubstitution matched pre post (d # rest))"

definition replace :: "string \<Rightarrow> string \<Rightarrow> string \<Rightarrow> string" where
  "replace content pat replacement =
     (case split_first pat content of
        None \<Rightarrow> content
      | Some (pre, post) \<Rightarrow> pre @ getSubstitution pat pre post replacement @ post)"

text \<open>
  What the claim about grammar corrections calls a first-occurrence substring
  replacement: the replacement text is inserted as it stands.
\<close>

definition literal_replace_first :: "string \<Rightarrow> string \<Rightarrow> string \<Rightarrow> string" where
  "literal_replace_first content pat replacement =
     (case split_first pat content of
        None \<Rightarrow> content
      | Some (pre, post) \<Rightarrow> pre @ replacement @ post)"

definition has_dollar :: "string \<Rightarrow> bool" where
  "has_dollar s \<longleftrightarrow> CHR ''$'' \<in> set s"

subsection \<open>Values read from the model's JSON\<close>

text \<open>
  \<^verbatim>\<open>JSON.parse(...) as AnalysisResult\<close> is an unchecked cast: at run time the stored
  analysis is whatever JSON value the model sent, and \<^verbatim>\<open>null\<close> is the empty analysis.
\<close>

datatype json =
    JNull
  | JBool bool
  | JNumber real
  | JString string
  | JArray "json list"
  | JObject "(string \<times> json) list"

text \<open>The interfaces of analysis.model.ts, and the JSON value of a well-typed result.\<close>

record Tone =
  name :: string
  score :: real

record GrammarMistake =
  mistake :: string
  correction :: string
  explanation :: string

record AnalysisResult =
  tone :: Tone
  suggestions :: "string list"
  grammarMistakes :: "GrammarMistake list"

definition json_of_tone :: "Tone \<Rightarrow> json" where
  "json_of_tone t = JObject [(''name'', JString (name t)), (''score'', JNumber (score t))]"

definition json_of_mistake :: "GrammarMistake \<Rightarrow> json" where
  "json_of_mistake g =
     JObject [(''mistake'', JString (mistake g)), (''correction'', JString (correction g)),
              (''explanation'', JString (explanation g))]"

definition json_of_result :: "AnalysisResult \<Rightarrow> json" where
  "json_of_result r =
     JObject [(''tone'', json_of_tone (tone r)),
              (''suggestions'', JArray (map JString (suggestions r))),
              (''grammarMistakes'', JArray (map json_of_mistake (grammarMistakes r)))]"

text \<open>
  Reading a property \<open>k\<close> of a value that is neither \<^verbatim>\<open>null\<close> nor \<^verbatim>\<open>undefined\<close>, for a
  name \<open>k\<close> that no built-in prototype defines (\<open>tone\<close> and \<open>name\<close> are such): an object
  gives its own property, every other value gives \<^verbatim>\<open>undefined\<close> (\<open>None\<close>).
\<close>

fun member :: "json \<Rightarrow> string \<Rightarrow> json option" where
  "member (JObject props) k = map_of props k"
| "member _ k = None"

datatype failure = ApiError | ParseError | TypeError

subsection \<open>Tone colours\<close>

text \<open>The own properties of the object literal \<^verbatim>\<open>toneColorMap\<close>.\<close>

definition toneColorMap :: "(string \<times> string) list" where
  "toneColorMap =
     [(''formal'', ''bg-green-500''), (''professional'', ''bg-green-500''),
      (''confident'', ''bg-blue-500''), (''joyful'', ''bg-yellow-400''),
      (''encouraging'', ''bg-teal-400''), (''friendly'', ''bg-sky-400''),
      (''angry'', ''bg-red-600''), (''critical'', ''bg-red-500''),
      (''sad'', ''bg-indigo-500''), (''defensive'', ''bg-orange-500''),
      (''frustrated'', ''bg-rose-600''),
      (''casual'', ''bg-sky-500''), (''informal'', ''bg-sky-500''),
      (''neutral'', ''bg-slate-500''), (''objective'', ''bg-slate-500''),
      (''sarcastic'', ''bg-purple-500'')]"

definition default_color :: string where
  "default_color = ''bg-gray-400 dark:bg-gray-600''"

text \<open>
  \<^verbatim>\<open>toneColorMap[toneName]\<close> is a property read on a plain object, so a name the literal
  does not define is looked up in \<^verbatim>\<open>Object.prototype\<close>, whose members are functions and
  objects (all of them truthy).
\<close>

definition object_prototype_members :: "string list" where
  "object_prototype_members =
     [''constructor'', ''__defineGetter__'', ''__defineSetter__'', ''hasOwnProperty'',
      ''__lookupGetter__'', ''__lookupSetter__'', ''isPrototypeOf'', ''propertyIsEnumerable'',
      ''toString'', ''valueOf'', ''__proto__'', ''toLocaleString'']"

datatype property_value =
    Str string
  | Inherited string

definition lookup_or_default :: "(string \<times> string) list \<Rightarrow> string \<Rightarrow> string \<Rightarrow> property_value" where
  "lookup_or_default obj k dflt =
     (case map_of obj k of
        Some v \<Rightarrow> (if v \<noteq> [] then Str v else Str dflt)
      | None \<Rightarrow> (if k \<in> set object_prototype_members then Inherited k else Str dflt))"

definition toneColorClass :: "json \<Rightarrow> failure + property_value" where
  "toneColorClass a =
     (case a of
        JNull \<Rightarrow> Inr (Str default_color)
      | _ \<Rightarrow>
         (case member a ''tone'' of
            None \<Rightarrow> Inl TypeError
          | Some JNull \<Rightarrow> Inl TypeError
          | Some t \<Rightarrow>
             (case member t ''name'' of
                Some (JString n) \<Rightarrow>
                  (let toneName = toLowerCase n
                   in if toneName = [] then Inr (Str default_color)
                      else Inr (lookup_or_default toneColorMap toneName default_color))
              | _ \<Rightarrow> Inl TypeError)))"

subsection \<open>The model client\<close>

text \<open>
  \<^verbatim>\<open>transformText\<close> builds a prompt and sends it; \<open>generate\<close> stands for the remote
  \<^verbatim>\<open>generateContent\<close> call, which answers with a text or fails.
\<close>

definition transformText_prompt :: "string \<Rightarrow> string \<Rightarrow> string" where
  \<open>transformText_prompt text action =
     (let a = toLowerCase action
      in if a = ''shorten'' then ''Make the following text more concise: "'' @ text @ ''"''
         else if a = ''formalize''
           then ''Rewrite the following text in a more formal and professional tone: "'' @ text @ ''"''
         else action @ '' the following text: "'' @ text @ ''"'')\<close>

definition transformText :: "(string \<Rightarrow> failure + string) \<Rightarrow> string \<Rightarrow> string \<Rightarrow> failure + string" where
  "transformText generate text action = generate (transformText_prompt text action)"

definition generic_template :: "string \<Rightarrow> string \<Rightarrow> string" where
  \<open>generic_template action text = action @ '' the following text: "'' @ text @ ''"''\<close>

definition moreActions :: "string list" where
  "moreActions = [''Make Funny'', ''Make Sarcastic'', ''Make Encouraging'', ''Make Frustrated'', ''Simplify'']"

text \<open>
  \<^verbatim>\<open>analyzeText\<close> sends its prompt with the response schema, trims the answer and hands it
  to \<^verbatim>\<open>JSON.parse\<close>. The parser is built into the language; it is the parameter \<open>parse\<close>,
  which gives \<open>None\<close> where \<^verbatim>\<open>JSON.parse\<close> throws a syntax error.
\<close>

definition analyzeText_prompt :: "string \<Rightarrow> string" where
  \<open>analyzeText_prompt text =
     ''Analyze the following text and provide feedback on its tone, suggest three alternative phrasings, and list any grammatical mistakes. Text: "''
       @ text @ ''"''\<close>

definition analyzeText ::
  "(string \<Rightarrow> failure + string) \<Rightarrow> (string \<Rightarrow> json option) \<Rightarrow> string \<Rightarrow> failure + json" where
  "analyzeText generate parse text =
     (case generate (analyzeText_prompt text) of
        Inl e \<Rightarrow> Inl e
      | Inr response \<Rightarrow>
         (case parse (trim response) of
            None \<Rightarrow> Inl ParseError
          | Some v \<Rightarrow> Inr v))"

subsection \<open>The component and the browser around it\<close>

record component =
  editorContent :: string
  analysis :: json
  isLoading :: bool
  error :: "string option"
  showMoreActions :: bool
  editorWidthPercent :: real
  debounceTimeout :: "nat option"

text \<open>
  What an \<^verbatim>\<open>await\<close> of the component is waiting for: \<^verbatim>\<open>runAnalysis\<close> waits for
  \<^verbatim>\<open>analyzeText\<close>, \<^verbatim>\<open>transformContent\<close> for \<^verbatim>\<open>transformText\<close>, remembering its action and
  whether it works on a selection.
\<close>

datatype continuation =
    AwaitAnalysis
  | AwaitTransform string bool

text \<open>
  A call of the model client: \<^verbatim>\<open>analyzeText(text)\<close> or \<^verbatim>\<open>transformText(text, action)\<close>,
  and the prompt it sends to the remote model.
\<close>

datatype request =
    Analyze string
  | Rewrite string string

fun prompt_of :: "request \<Rightarrow> string" where
  "prompt_of (Analyze text) = analyzeText_prompt text"
| "prompt_of (Rewrite text action) = transformText_prompt text action"

text \<open>
  The browser state the component acts on: a clock in milliseconds, the pending timeouts
  (handle, due time, and the text captured by the callback
  \<^verbatim>\<open>() => this.runAnalysis(textContent)\<close>), the next timer handle (handles are positive), the
  calls awaiting an answer, the log of every call made to the model client, and the log
  of how the analysis calls ended.
\<close>

record world =
  comp :: component
  clock :: nat
  timers :: "(nat \<times> nat \<times> string) list"
  nextHandle :: nat
  pending :: "continuation list"
  calls :: "request list"
  settled :: "(failure + json) list"

definition clearTimeout :: "nat \<Rightarrow> world \<Rightarrow> world" where
  "clearTimeout h w = w\<lparr>timers := filter (\<lambda>(i, due, t). i \<noteq> h) (timers w)\<rparr>"

definition setTimeout :: "string \<Rightarrow> nat \<Rightarrow> world \<Rightarrow> nat \<times> world" where
  "setTimeout text delay w =
     (nextHandle w,
      w\<lparr>timers := timers w @ [(nextHandle w, clock w + delay, text)],
        nextHandle := nextHandle w + 1\<rparr>)"

subsection \<open>Analysis\<close>

definition analysis_error_message :: string where
  "analysis_error_message =
     ''Failed to analyze text. The API key may be invalid or the service is unavailable.''"

text \<open>
  \<^verbatim>\<open>runAnalysis\<close> up to its \<^verbatim>\<open>await\<close>: the call to \<^verbatim>\<open>analyzeText\<close> sends the prompt at once.
\<close>

definition runAnalysis_begin :: "string \<Rightarrow> world \<Rightarrow> world" where
  "runAnalysis_begin text w =
     (if text = [] then w
      else w\<lparr>comp := (comp w)\<lparr>isLoading := True, error := None\<rparr>,
             pending := pending w @ [AwaitAnalysis],
             calls := calls w @ [Analyze text]\<rparr>)"

text \<open>\<^verbatim>\<open>runAnalysis\<close> from the \<^verbatim>\<open>await\<close> on: the try, catch and finally blocks.\<close>

definition runAnalysis_resume :: "failure + json \<Rightarrow> component \<Rightarrow> component" where
  "runAnalysis_resume outcome c =
     (case outcome of
        Inr result \<Rightarrow> c\<lparr>analysis := result, isLoading := False\<rparr>
      | Inl e \<Rightarrow> c\<lparr>error := Some analysis_error_message, analysis := JNull, isLoading := False\<rparr>)"

subsection \<open>The debounce effect\<close>

text \<open>
  The body of the first \<^verbatim>\<open>effect\<close> of the constructor. \<open>strip\<close> stands for \<^verbatim>\<open>stripHtml\<close>,
  which asks the browser's \<^verbatim>\<open>DOMParser\<close> for the text content of the markup.
\<close>

definition debounce_effect :: "(string \<Rightarrow> string) \<Rightarrow> world \<Rightarrow> world" where
  "debounce_effect strip w =
     (let content = editorContent (comp w);
          textContent = strip content;
          w1 = (case debounceTimeout (comp w) of
                  None \<Rightarrow> w
                | Some h \<Rightarrow> if h \<noteq> 0 then clearTimeout h w else w)
      in if length (trim textContent) > 10
         then (case setTimeout textContent 1000 w1 of
                 (h, w2) \<Rightarrow> w2\<lparr>comp := (comp w2)\<lparr>debounceTimeout := Some h\<rparr>\<rparr>)
         else w1\<lparr>comp := (comp w1)\<lparr>analysis := JNull\<rparr>\<rparr>)"

text \<open>
  A change of the signal \<^verbatim>\<open>editorContent\<close> runs the effect again (\<open>edit\<close>). Setting the
  signal to the value it already holds is no change and runs nothing.
\<close>

definition edit :: "(string \<Rightarrow> string) \<Rightarrow> string \<Rightarrow> world \<Rightarrow> world" where
  "edit strip html w = debounce_effect strip (w\<lparr>comp := (comp w)\<lparr>editorContent := html\<rparr>\<rparr>)"

definition set_editorContent :: "(string \<Rightarrow> string) \<Rightarrow> string \<Rightarrow> world \<Rightarrow> world" where
  "set_editorContent strip html w = (if html = editorContent (comp w) then w else edit strip html w)"

definition onContentChange :: "(string \<Rightarrow> string) \<Rightarrow> string \<Rightarrow> world \<Rightarrow> world" where
  "onContentChange strip innerHTML w = set_editorContent strip innerHTML w"

definition applySuggestion :: "(string \<Rightarrow> string) \<Rightarrow> string \<Rightarrow> world \<Rightarrow> world" where
  "applySuggestion strip suggestion w =
     set_editorContent strip (''<div>'' @ newlines_to_br suggestion @ ''</div>'') w"

definition applyGrammarCorrection :: "(string \<Rightarrow> string) \<Rightarrow> string \<Rightarrow> string \<Rightarrow> world \<Rightarrow> world" where
  "applyGrammarCorrection strip m c w =
     set_editorContent strip (replace (editorContent (comp w)) m c) w"

subsection \<open>Transforming the content\<close>

text \<open>What \<^verbatim>\<open>window.getSelection()\<close> gives: \<^verbatim>\<open>null\<close> (\<open>None\<close>) or a selection.\<close>

record selection =
  isCollapsed :: bool
  selected :: string

definition hasSelection :: "selection option \<Rightarrow> bool" where
  "hasSelection sel =
     (case sel of
        None \<Rightarrow> False
      | Some s \<Rightarrow> \<not> isCollapsed s \<and> length (trim (selected s)) > 0)"

definition transform_error_message :: "string \<Rightarrow> string" where
  "transform_error_message action =
     ''Failed to '' @ [CHR 0x27] @ action @ [CHR 0x27] @ '' text. Please try again.''"

definition transformContent_begin ::
  "(string \<Rightarrow> string) \<Rightarrow> selection option \<Rightarrow> string \<Rightarrow> world \<Rightarrow> world" where
  "transformContent_begin strip sel action w =
     (let w1 = w\<lparr>comp := (comp w)\<lparr>showMoreActions := False\<rparr>\<rparr>;
          textToTransform = (case sel of
                               None \<Rightarrow> strip (editorContent (comp w1))
                             | Some s \<Rightarrow> if hasSelection sel then selected s
                                         else strip (editorContent (comp w1)))
      in if textToTransform = [] then w1
         else w1\<lparr>comp := (comp w1)\<lparr>isLoading := True, error := None\<rparr>,
                 pending := pending w1 @ [AwaitTransform action (hasSelection sel)],
                 calls := calls w1 @ [Rewrite textToTransform action]\<rparr>)"

text \<open>
  After the \<^verbatim>\<open>await\<close>. With a selection the new text goes to \<^verbatim>\<open>document.execCommand\<close>, which
  edits the page and not the signal; the component hears of it as a later input event.
\<close>

definition transformContent_resume ::
  "(string \<Rightarrow> string) \<Rightarrow> string \<Rightarrow> bool \<Rightarrow> failure + string \<Rightarrow> world \<Rightarrow> world" where
  "transformContent_resume strip action hasSel outcome w =
     (let w1 = (case outcome of
                  Inr newText \<Rightarrow>
                    (if hasSel then w
                     else set_editorContent strip (''<div>'' @ newlines_to_br newText @ ''</div>'') w)
                | Inl e \<Rightarrow> w\<lparr>comp := (comp w)\<lparr>error := Some (transform_error_message action)\<rparr>\<rparr>)
      in w1\<lparr>comp := (comp w1)\<lparr>isLoading := False\<rparr>\<rparr>)"

subsection \<open>Resizing the panels\<close>

text \<open>
  \<open>clientX\<close> and \<open>innerWidth\<close> are numbers of the page; the quotient is taken over the
  reals. Where the window has width 0 the program computes NaN or an infinity, which
  fails the test as the quotient 0 of the model does.
\<close>

definition doResize :: "real \<Rightarrow> real \<Rightarrow> component \<Rightarrow> component" where
  "doResize clientX innerWidth c =
     (let newWidth = (clientX / innerWidth) * 100
      in if newWidth > 25 \<and> newWidth < 75 then c\<lparr>editorWidthPercent := newWidth\<rparr> else c)"

subsection \<open>Events\<close>

datatype reply =
    Failed failure
  | Analysed json
  | Transformed string

datatype event =
    Input string
  | Suggestion string
  | Correction string string
  | Transform "selection option" string
  | Resize real real
  | Elapse nat
  | Timeout nat
  | Settle nat reply

definition drop_nth :: "nat \<Rightarrow> 'a list \<Rightarrow> 'a list" where
  "drop_nth k xs = take k xs @ drop (Suc k) xs"

text \<open>A timeout runs its callback once it is due, and is then no longer pending.\<close>

definition fire :: "nat \<Rightarrow> world \<Rightarrow> world" where
  "fire h w =
     (case find (\<lambda>(i, due, t). i = h \<and> due \<le> clock w) (timers w) of
        None \<Rightarrow> w
      | Some (i, due, t) \<Rightarrow> runAnalysis_begin t (clearTimeout h w))"

text \<open>The answer to the call at position \<open>k\<close> arrives and its continuation runs.\<close>

definition settle :: "(string \<Rightarrow> string) \<Rightarrow> nat \<Rightarrow> reply \<Rightarrow> world \<Rightarrow> world" where
  "settle strip k r w =
     (if k < length (pending w) then
        (let w1 = w\<lparr>pending := drop_nth k (pending w)\<rparr>
         in case (pending w ! k, r) of
              (AwaitAnalysis, Analysed v) \<Rightarrow>
                w1\<lparr>comp := runAnalysis_resume (Inr v) (comp w1), settled := settled w1 @ [Inr v]\<rparr>
            | (AwaitAnalysis, Failed e) \<Rightarrow>
                w1\<lparr>comp := runAnalysis_resume (Inl e) (comp w1), settled := settled w1 @ [Inl e]\<rparr>
            | (AwaitTransform action hasSel, Transformed t) \<Rightarrow>
                transformContent_resume strip action hasSel (Inr t) w1
            | (AwaitTransform action hasSel, Failed e) \<Rightarrow>
                transformContent_resume strip action hasSel (Inl e) w1
            | _ \<Rightarrow> w)
      else w)"

fun step :: "(string \<Rightarrow> string) \<Rightarrow> event \<Rightarrow> world \<Rightarrow> world" where
  "step strip (Input html) w = onContentChange strip html w"
| "step strip (Suggestion s) w = applySuggestion strip s w"
| "step strip (Correction m c) w = applyGrammarCorrection strip m c w"
| "step strip (Transform sel action) w = transformContent_begin strip sel action w"
| "step strip (Resize x width) w = w\<lparr>comp := doResize x width (comp w)\<rparr>"
| "step strip (Elapse d) w = w\<lparr>clock := clock w + d\<rparr>"
| "step strip (Timeout h) w = fire h w"
| "step strip (Settle k r) w = settle strip k r w"

definition run :: "(string \<Rightarrow> string) \<Rightarrow> event list \<Rightarrow> world \<Rightarrow> world" where
  "run strip es w = foldl (\<lambda>w e. step strip e w) w es"

subsection \<open>Construction\<close>

definition initial_content :: string where
  \<open>initial_content = ''<div>Welcome to Zen Writer! Start typing here and see the magic happen. For example, try writing: "i think ur idea is bad and we shud not proceed with it."</div>''\<close>

definition fields :: component where
  "fields = \<lparr>editorContent = initial_content, analysis = JNull, isLoading = False, error = None,
             showMoreActions = False, editorWidthPercent = 66, debounceTimeout = None\<rparr>"

definition page :: world where
  "page = \<lparr>comp = fields, clock = 0, timers = [], nextHandle = 1, pending = [], calls = [],
            settled = []\<rparr>"

text \<open>
  The constructor registers the effect, starts the first analysis itself, and the effect
  has its first run when the constructor is done.
\<close>

definition constructor :: "(string \<Rightarrow> string) \<Rightarrow> world" where
  "constructor strip = debounce_effect strip (runAnalysis_begin (strip initial_content) page)"

text \<open>
  The text content of markup that consists of plain tags and text without character
  references, to have a concrete \<open>strip\<close>.
\<close>

fun tag_free :: "bool \<Rightarrow> string \<Rightarrow> string" where
  "tag_free in_tag [] = []"
| "tag_free in_tag (c # cs) =
     (if in_tag then (if c = CHR ''>'' then tag_free False cs else tag_free True cs)
      else (if c = CHR ''<'' then tag_free True cs else c # tag_free False cs))"

definition plain_text :: "string \<Rightarrow> string" where
  "plain_text html = tag_free False html"

text \<open>
  The pending timeouts are at most the one whose handle the component holds, and its
  text passed the length test.
\<close>

definition timer_inv :: "world \<Rightarrow> bool" where
  "timer_inv w \<longleftrightarrow>
     0 < nextHandle w \<and> length (timers w) \<le> 1 \<and>
     list_all (\<lambda>(h, due, t). debounceTimeout (comp w) = Some h \<and> h \<noteq> 0 \<and> h < nextHandle w
                              \<and> 10 < length (trim t)) (timers w)"

text \<open>
  A stored analysis is the result of the analysis call that ended last, and every
  analysis call was made for a text that passed the length test.
\<close>

definition history_inv :: "world \<Rightarrow> bool" where
  "history_inv w \<longleftrightarrow>
     (analysis (comp w) \<noteq> JNull \<longrightarrow>
        settled w \<noteq> [] \<and> last (settled w) = Inr (analysis (comp w))) \<and>
     list_all (\<lambda>r. case r of Analyze t \<Rightarrow> 10 < length (trim t) | Rewrite t a \<Rightarrow> True) (calls w)"

text \<open>A page whose user has asked for a rewrite of the whole document.\<close>

definition busy :: world where
  "busy = transformContent_begin plain_text None ''Make Funny''
            (page\<lparr>comp := fields\<lparr>editorContent := ''<div>hello there, world</div>''\<rparr>\<rparr>)"

text \<open>A well-typed analysis, and a run in which the answer to a call arrives late.\<close>

definition sample_result :: json where
  "sample_result = json_of_result \<lparr>tone = \<lparr>name = ''Formal'', score = 70\<rparr>,
     suggestions = [''a'', ''b'', ''c''], grammarMistakes = []\<rparr>"

definition late_answer :: "event list" where
  "late_answer =
     [Settle 0 (Failed ApiError),
      Input ''<div>hello brave new world</div>'', Elapse 1000, Timeout 2,
      Input ''<div>hi</div>'', Elapse 1500,
      Settle 0 (Analysed sample_result)]"

text \<open>
  A fragment of \<^verbatim>\<open>JSON.parse\<close>, to have a concrete \<open>parse\<close>: it skips the white space
  of JSON (space, TAB, LF and CR, nothing else) around the document and knows two
  documents. On the texts it is used with below it answers as \<^verbatim>\<open>JSON.parse\<close> does.
\<close>

definition is_json_space :: "char \<Rightarrow> bool" where
  "is_json_space c \<longleftrightarrow> c \<in> set [CHR 0x20, CHR 0x09, CHR 0x0A, CHR 0x0D]"

definition json_unpad :: "string \<Rightarrow> string" where
  "json_unpad s = rev (dropWhile is_json_space (rev (dropWhile is_json_space s)))"

definition sample_parse :: "string \<Rightarrow> json option" where
  \<open>sample_parse s =
     (if json_unpad s = ''{"suggestions":[],"grammarMistakes":[]}''
        then Some (JObject [(''suggestions'', JArray []), (''grammarMistakes'', JArray [])])
      else if json_unpad s = ''null'' then Some JNull
      else None)\<close>

text \<open>
  An answer of the model that starts with a no-break space: not a JSON text, since JSON
  does not take the no-break space for white space.
\<close>

definition padded_answer :: string where
  \<open>padded_answer = CHR 0xA0 # ''{"suggestions":[],"grammarMistakes":[]}''\<close>

text \<open>A component that shows an earlier analysis and an earlier error.\<close>

definition showing :: component where
  "showing = fields\<lparr>analysis := sample_result, error := Some ''earlier error''\<rparr>"

text \<open>The page after the user has typed a sentence with a misspelling.\<close>

definition typo_page :: world where
  "typo_page = step plain_text (Input ''<div>i need teh $$ now</div>'') (constructor plain_text)"

section \<open>Properties\<close>

subsection \<open>The pending timeout\<close>

lemma timer_inv_cases:
  assumes "timer_inv w"
  obtains (idle) "timers w = []" "0 < nextHandle w"
  | (waiting) h due t where "timers w = [(h, due, t)]" "debounceTimeout (comp w) = Some h"
      "0 < h" "h < nextHandle w" "10 < length (trim t)"
proof (cases "timers w")
  case Nil
  with assms idle show ?thesis by (simp add: timer_inv_def)
next
  case (Cons x xs)
  with assms have "xs = []" by (simp add: timer_inv_def)
  with Cons assms waiting show ?thesis by (cases x) (auto simp: timer_inv_def)
qed

lemma timers_debounce_effect:
  assumes "timer_inv w"
  shows "timers (debounce_effect strip w) =
       (if 10 < length (trim (strip (editorContent (comp w))))
        then [(nextHandle w, clock w + 1000, strip (editorContent (comp w)))] else [])"
  using assms
  by (cases rule: timer_inv_cases)
     (auto simp: debounce_effect_def clearTimeout_def setTimeout_def Let_def split: option.splits)

lemma timer_inv_debounce_effect:
  assumes "timer_inv w"
  shows "timer_inv (debounce_effect strip w)"
  using assms
  by (cases rule: timer_inv_cases)
     (auto simp: timer_inv_def debounce_effect_def clearTimeout_def setTimeout_def Let_def
           split: option.splits)

lemma frame_debounce_effect:
  "calls (debounce_effect strip w) = calls w \<and> pending (debounce_effect strip w) = pending w \<and>
   settled (debounce_effect strip w) = settled w \<and> clock (debounce_effect strip w) = clock w \<and>
   editorContent (comp (debounce_effect strip w)) = editorContent (comp w)"
  by (simp add: debounce_effect_def clearTimeout_def setTimeout_def Let_def split: option.splits)

lemma analysis_debounce_effect:
  "analysis (comp (debounce_effect strip w)) =
     (if 10 < length (trim (strip (editorContent (comp w)))) then analysis (comp w) else JNull)"
  by (simp add: debounce_effect_def clearTimeout_def setTimeout_def Let_def split: option.splits)

lemma timer_inv_comp_update:
  "debounceTimeout c = debounceTimeout (comp w) \<Longrightarrow> timer_inv (w\<lparr>comp := c\<rparr>) = timer_inv w"
  by (simp add: timer_inv_def)

lemma timer_inv_set_editorContent: "timer_inv w \<Longrightarrow> timer_inv (set_editorContent strip html w)"
  by (simp add: set_editorContent_def edit_def timer_inv_debounce_effect timer_inv_comp_update)

lemma timer_inv_runAnalysis_begin: "timer_inv w \<Longrightarrow> timer_inv (runAnalysis_begin text w)"
  by (simp add: runAnalysis_begin_def timer_inv_def)

lemma timer_inv_transformContent_begin:
  "timer_inv w \<Longrightarrow> timer_inv (transformContent_begin strip sel action w)"
  by (simp add: transformContent_begin_def timer_inv_def Let_def)

lemma timer_inv_transformContent_resume:
  "timer_inv w \<Longrightarrow> timer_inv (transformContent_resume strip action hs outcome w)"
  by (cases outcome)
     (simp_all add: transformContent_resume_def Let_def timer_inv_comp_update
                    timer_inv_set_editorContent)

lemma timer_inv_fire:
  assumes "timer_inv w"
  shows "timer_inv (fire h w)"
  using assms
  by (cases rule: timer_inv_cases)
     (auto simp: fire_def timer_inv_def runAnalysis_begin_def clearTimeout_def
           split: option.splits if_splits)

lemma timer_inv_pending_update: "timer_inv (w\<lparr>pending := p\<rparr>) = timer_inv w"
  by (simp add: timer_inv_def)

lemma debounceTimeout_runAnalysis_resume:
  "debounceTimeout (runAnalysis_resume outcome c) = debounceTimeout c"
  by (cases outcome) (simp_all add: runAnalysis_resume_def)

lemma timer_inv_analysis_settled:
  "timer_inv (w\<lparr>pending := p, comp := runAnalysis_resume outcome (comp w), settled := s\<rparr>)
     = timer_inv w"
  by (simp add: timer_inv_def debounceTimeout_runAnalysis_resume)

lemma timer_inv_settle:
  assumes "timer_inv w"
  shows "timer_inv (settle strip k r w)"
proof (cases "k < length (pending w)")
  case False
  with assms show ?thesis by (simp add: settle_def)
next
  case True
  let ?w1 = "w\<lparr>pending := drop_nth k (pending w)\<rparr>"
  have w1: "timer_inv ?w1" using assms by (simp add: timer_inv_pending_update)
  show ?thesis
  proof (cases "pending w ! k")
    case AwaitAnalysis
    with True assms show ?thesis
      by (cases r)
         (simp_all add: settle_def Let_def timer_inv_analysis_settled)
  next
    case (AwaitTransform action hasSel)
    with True assms show ?thesis
      by (cases r) (simp_all add: settle_def Let_def timer_inv_transformContent_resume [OF w1])
  qed
qed

lemma timer_inv_clock_update: "timer_inv (w\<lparr>clock := t\<rparr>) = timer_inv w"
  by (simp add: timer_inv_def)

lemma timer_inv_step: "timer_inv w \<Longrightarrow> timer_inv (step strip e w)"
  by (cases e) (simp_all add: onContentChange_def applySuggestion_def applyGrammarCorrection_def
        timer_inv_set_editorContent timer_inv_transformContent_begin timer_inv_fire timer_inv_settle
        timer_inv_comp_update timer_inv_clock_update doResize_def Let_def)

lemma timer_inv_run: "timer_inv w \<Longrightarrow> timer_inv (run strip es w)"
  unfolding run_def by (induction es arbitrary: w) (simp_all add: timer_inv_step)

lemma timer_inv_page: "timer_inv page"
  by (simp add: timer_inv_def page_def)

lemma timer_inv_constructor: "timer_inv (constructor strip)"
  unfolding constructor_def
  by (intro timer_inv_debounce_effect timer_inv_runAnalysis_begin timer_inv_page)

subsection \<open>Operations of the component\<close>

lemma editorContent_debounce_effect:
  "editorContent (comp (debounce_effect strip w)) = editorContent (comp w)"
  by (simp add: frame_debounce_effect)

lemma editorContent_set_editorContent:
  "editorContent (comp (set_editorContent strip html w)) = html"
  by (simp add: set_editorContent_def edit_def editorContent_debounce_effect)

text \<open>
  Claim C10. \<^verbatim>\<open>runAnalysis\<close> called with the empty text returns at its first line: the whole
  state stays as it is, so no call is made or awaited, and \<open>isLoading\<close>, \<open>error\<close> and a
  stored analysis keep their values.
\<close>

theorem runAnalysis_empty_text_noop: "runAnalysis_begin [] w = w"
  by (simp add: runAnalysis_begin_def)

theorem runAnalysis_empty_text_noop_witness:
  "runAnalysis_begin [] page = page \<and> calls (runAnalysis_begin [] page) = []"
  using runAnalysis_empty_text_noop [of page] by (simp add: page_def)

text \<open>
  Claim C3. An analysis run on a non-empty text sets \<open>isLoading\<close>, clears the error and
  calls the model client. When the call succeeds its result replaces the stored analysis;
  when it fails the error becomes the generic message about the key and the service, and
  the analysis is cleared; either way \<open>isLoading\<close> is false afterwards.
\<close>

theorem runAnalysis_outcomes:
  "text \<noteq> [] \<Longrightarrow>
     isLoading (comp (runAnalysis_begin text w)) \<and>
     error (comp (runAnalysis_begin text w)) = None \<and>
     analysis (comp (runAnalysis_begin text w)) = analysis (comp w) \<and>
     calls (runAnalysis_begin text w) = calls w @ [Analyze text] \<and>
     pending (runAnalysis_begin text w) = pending w @ [AwaitAnalysis] \<and>
     runAnalysis_resume (Inr result) c = c\<lparr>analysis := result, isLoading := False\<rparr> \<and>
     runAnalysis_resume (Inl e) c =
       c\<lparr>error := Some ''Failed to analyze text. The API key may be invalid or the service is unavailable.'',
         analysis := JNull, isLoading := False\<rparr>"
  by (simp add: runAnalysis_begin_def runAnalysis_resume_def analysis_error_message_def)

theorem runAnalysis_outcomes_witness:
  "''hello world!'' \<noteq> [] \<and>
   error showing = Some ''earlier error'' \<and> \<not> isLoading showing \<and> analysis showing \<noteq> JNull \<and>
   isLoading (comp (runAnalysis_begin ''hello world!'' (page\<lparr>comp := showing\<rparr>))) \<and>
   error (comp (runAnalysis_begin ''hello world!'' (page\<lparr>comp := showing\<rparr>))) = None \<and>
   calls (runAnalysis_begin ''hello world!'' (page\<lparr>comp := showing\<rparr>))
     = [Analyze ''hello world!''] \<and>
   analysis (runAnalysis_resume (Inr (JObject [])) (showing\<lparr>isLoading := True\<rparr>)) = JObject [] \<and>
   \<not> isLoading (runAnalysis_resume (Inr (JObject [])) (showing\<lparr>isLoading := True\<rparr>)) \<and>
   error (runAnalysis_resume (Inl ApiError) (showing\<lparr>isLoading := True, error := None\<rparr>))
     = Some ''Failed to analyze text. The API key may be invalid or the service is unavailable.'' \<and>
   analysis (runAnalysis_resume (Inl ApiError) (showing\<lparr>isLoading := True, error := None\<rparr>))
     = JNull \<and>
   \<not> isLoading (runAnalysis_resume (Inl ApiError) (showing\<lparr>isLoading := True, error := None\<rparr>))"
  using runAnalysis_outcomes [of "''hello world!''" "page\<lparr>comp := showing\<rparr>" "JObject []"
          "showing\<lparr>isLoading := True\<rparr>" ApiError]
        runAnalysis_outcomes [of "''hello world!''" "page\<lparr>comp := showing\<rparr>" "JObject []"
          "showing\<lparr>isLoading := True, error := None\<rparr>" ApiError]
  by (simp add: page_def showing_def fields_def sample_result_def json_of_result_def)

text \<open>
  Claim C4. When the call of \<^verbatim>\<open>transformContent(action)\<close> fails, the continuation changes
  nothing but the error, which names the action, and \<open>isLoading\<close>; the document is the
  one from before the call. A success without a selection replaces the document.
\<close>

theorem transformContent_failure_leaves_content:
  "transformContent_resume strip action hasSel (Inl e) w =
     w\<lparr>comp := (comp w)\<lparr>error := Some (transform_error_message action), isLoading := False\<rparr>\<rparr> \<and>
   editorContent (comp (transformContent_begin strip sel action w)) = editorContent (comp w) \<and>
   (k < length (pending w) \<and> pending w ! k = AwaitTransform action hasSel \<longrightarrow>
      editorContent (comp (settle strip k (Failed e) w)) = editorContent (comp w) \<and>
      error (comp (settle strip k (Failed e) w)) =
        Some (''Failed to '' @ [CHR 0x27] @ action @ [CHR 0x27] @ '' text. Please try again.'')) \<and>
   editorContent (comp (transformContent_resume strip action False (Inr newText) w)) =
     ''<div>'' @ newlines_to_br newText @ ''</div>''"
  by (simp add: transformContent_resume_def transformContent_begin_def Let_def settle_def
        transform_error_message_def editorContent_set_editorContent)

lemma busy_pending: "pending busy = [AwaitTransform ''Make Funny'' False] \<and> editorContent (comp busy) = ''<div>hello there, world</div>''"
  by (simp add: busy_def transformContent_begin_def Let_def hasSelection_def page_def plain_text_def fields_def)

theorem transformContent_failure_leaves_content_witness:
  "editorContent (comp (settle plain_text 0 (Failed ApiError) busy)) = ''<div>hello there, world</div>'' \<and>
   error (comp (settle plain_text 0 (Failed ApiError) busy)) = Some ''Failed to 'Make Funny' text. Please try again.''"
  using transformContent_failure_leaves_content [of plain_text "''Make Funny''" False ApiError busy None 0 "[]"]
  by (simp add: busy_pending)

text \<open>
  Claim C9. A mouse move whose width percentage is at most 25 or at least 75 leaves the
  component as it is (the stored width is not moved to the bound); a percentage strictly
  between 25 and 75 becomes the stored width.
\<close>

theorem doResize_guard:
  "(x / width * 100 \<le> 25 \<or> 75 \<le> x / width * 100 \<longrightarrow> doResize x width c = c) \<and>
   (25 < x / width * 100 \<and> x / width * 100 < 75 \<longrightarrow>
      doResize x width c = c\<lparr>editorWidthPercent := x / width * 100\<rparr>)"
  by (simp add: doResize_def Let_def)

theorem doResize_guard_witness:
  "doResize 300 1000 fields = fields\<lparr>editorWidthPercent := 30\<rparr> \<and>
   doResize 900 1000 fields = fields \<and> doResize 250 1000 fields = fields \<and>
   editorWidthPercent (doResize 900 1000 fields) = 66"
  using doResize_guard [of 300 1000 fields] doResize_guard [of 900 1000 fields]
        doResize_guard [of 250 1000 fields]
  by (simp add: fields_def)

lemma moreActions_lower:
  "\<forall>a \<in> set moreActions. toLowerCase a \<noteq> ''shorten'' \<and> toLowerCase a \<noteq> ''formalize''"
  by code_simp

text \<open>
  Claim C6, amended. The action is compared after lower-casing: an action whose lower-case
  form is \<open>shorten\<close> or \<open>formalize\<close> gets the fixed instruction, every other action the
  generic one with the action in front as written; the actions of the menu are of the
  second kind.
\<close>

theorem transformText_routing:
  "transformText_prompt text action =
     (if toLowerCase action = ''shorten''
        then ''Make the following text more concise: '' @ [CHR 0x22] @ text @ [CHR 0x22]
      else if toLowerCase action = ''formalize''
        then ''Rewrite the following text in a more formal and professional tone: ''
               @ [CHR 0x22] @ text @ [CHR 0x22]
      else generic_template action text) \<and>
   transformText generate text action = generate (transformText_prompt text action) \<and>
   generic_template action text = action @ '' the following text: '' @ [CHR 0x22] @ text @ [CHR 0x22] \<and>
   (\<forall>a \<in> set moreActions. transformText_prompt text a = generic_template a text)"
  using moreActions_lower
  by (simp add: transformText_prompt_def generic_template_def Let_def transformText_def)

lemma lower_examples:
  "toLowerCase ''shorten'' = ''shorten'' \<and> toLowerCase ''Formalize'' = ''formalize'' \<and>
   toLowerCase ''Make Funny'' = ''make funny'' \<and> toLowerCase ''Shorten'' = ''shorten''"
  by code_simp

theorem transformText_routing_witness:
  "transformText_prompt ''hi'' ''shorten'' = ''Make the following text more concise: '' @ [CHR 0x22] @ ''hi'' @ [CHR 0x22] \<and>
   transformText_prompt ''hi'' ''Formalize'' =
     ''Rewrite the following text in a more formal and professional tone: '' @ [CHR 0x22] @ ''hi'' @ [CHR 0x22] \<and>
   transformText_prompt ''hi'' ''Make Funny'' = ''Make Funny the following text: '' @ [CHR 0x22] @ ''hi'' @ [CHR 0x22]"
  using transformText_routing [of "''hi''" "''shorten''" "\<lambda>p. Inr p"]
        transformText_routing [of "''hi''" "''Formalize''" "\<lambda>p. Inr p"]
        transformText_routing [of "''hi''" "''Make Funny''" "\<lambda>p. Inr p"]
  by (simp add: lower_examples generic_template_def)

text \<open>
  The action \<open>Shorten\<close> is neither of the two strings, and does not get the generic
  instruction.
\<close>

theorem transformText_other_action_counterexample:
  "''Shorten'' \<noteq> ''shorten'' \<and> ''Shorten'' \<noteq> ''formalize'' \<and>
   transformText_prompt ''hello'' ''Shorten'' \<noteq> generic_template ''Shorten'' ''hello'' \<and>
   transformText_prompt ''hello'' ''Shorten'' = ''Make the following text more concise: '' @ [CHR 0x22] @ ''hello'' @ [CHR 0x22]"
  by (simp add: transformText_prompt_def generic_template_def Let_def lower_examples)

subsection \<open>The history of analysis calls\<close>

lemma length_trim_le: "length (trim s) \<le> length s"
proof -
  have "length (trim s) \<le> length (dropWhile is_white_space s)"
    unfolding trim_def by (metis length_dropWhile_le length_rev)
  also have "\<dots> \<le> length s" by (rule length_dropWhile_le)
  finally show ?thesis .
qed

lemma history_inv_cong:
  "analysis (comp w') = analysis (comp w) \<Longrightarrow> settled w' = settled w \<Longrightarrow> calls w' = calls w \<Longrightarrow>
   history_inv w' = history_inv w"
  by (simp add: history_inv_def)

lemma history_inv_debounce_effect: "history_inv w \<Longrightarrow> history_inv (debounce_effect strip w)"
  by (simp add: history_inv_def frame_debounce_effect analysis_debounce_effect)

lemma history_inv_set_editorContent: "history_inv w \<Longrightarrow> history_inv (set_editorContent strip html w)"
  by (simp add: set_editorContent_def edit_def history_inv_debounce_effect
                history_inv_cong [of "w\<lparr>comp := _\<rparr>" w])

lemma history_inv_runAnalysis_begin:
  "history_inv w \<Longrightarrow> 10 < length (trim text) \<Longrightarrow> history_inv (runAnalysis_begin text w)"
  by (simp add: runAnalysis_begin_def history_inv_def)

lemma history_inv_transformContent_begin:
  "history_inv w \<Longrightarrow> history_inv (transformContent_begin strip sel action w)"
  by (simp add: transformContent_begin_def history_inv_def Let_def)

lemma history_inv_isLoading: "history_inv (w\<lparr>comp := (comp w)\<lparr>isLoading := b\<rparr>\<rparr>) = history_inv w"
  by (simp add: history_inv_def)

lemma history_inv_transformContent_resume:
  "history_inv w \<Longrightarrow> history_inv (transformContent_resume strip action hs outcome w)"
  by (cases outcome)
     (simp_all add: transformContent_resume_def Let_def history_inv_isLoading
                    history_inv_set_editorContent, simp add: history_inv_def)

lemma history_inv_fire:
  assumes "timer_inv w" "history_inv w"
  shows "history_inv (fire h w)"
  using assms(1)
proof (cases rule: timer_inv_cases)
  case idle
  with assms(2) show ?thesis by (simp add: fire_def)
next
  case (waiting h' due t)
  have "history_inv (clearTimeout h w)"
    using assms(2) by (simp add: history_inv_def clearTimeout_def)
  with waiting assms(2) show ?thesis
    by (simp add: fire_def history_inv_runAnalysis_begin)
qed

lemma history_inv_settle:
  assumes "history_inv w"
  shows "history_inv (settle strip k r w)"
proof (cases "k < length (pending w)")
  case False
  with assms show ?thesis by (simp add: settle_def)
next
  case True
  let ?w1 = "w\<lparr>pending := drop_nth k (pending w)\<rparr>"
  have w1: "history_inv ?w1" using assms by (simp add: history_inv_def)
  show ?thesis
  proof (cases "pending w ! k")
    case AwaitAnalysis
    with True assms show ?thesis
      by (cases r) (simp_all add: settle_def Let_def, simp_all add: history_inv_def runAnalysis_resume_def)
  next
    case (AwaitTransform action hasSel)
    with True assms show ?thesis
      by (cases r) (simp_all add: settle_def Let_def history_inv_transformContent_resume [OF w1])
  qed
qed

lemma history_inv_step:
  "timer_inv w \<Longrightarrow> history_inv w \<Longrightarrow> history_inv (step strip e w)"
  by (cases e)
     (simp_all add: onContentChange_def applySuggestion_def applyGrammarCorrection_def
        history_inv_set_editorContent history_inv_transformContent_begin history_inv_fire
        history_inv_settle, simp_all add: history_inv_def doResize_def Let_def)

lemma invariants_run:
  "timer_inv w \<Longrightarrow> history_inv w \<Longrightarrow> timer_inv (run strip es w) \<and> history_inv (run strip es w)"
  unfolding run_def
  by (induction es arbitrary: w) (simp_all add: timer_inv_step history_inv_step)

lemma history_inv_page: "history_inv page"
  by (simp add: history_inv_def page_def fields_def)

lemma history_inv_constructor:
  "10 < length (trim (strip initial_content)) \<Longrightarrow> history_inv (constructor strip)"
  unfolding constructor_def
  by (intro history_inv_debounce_effect history_inv_runAnalysis_begin history_inv_page)

subsection \<open>The debounced pipeline\<close>

lemma analyze_calls_long:
  "history_inv w \<Longrightarrow> Analyze t \<in> set (calls w) \<Longrightarrow> 10 < length t"
proof -
  assume h: "history_inv w" and m: "Analyze t \<in> set (calls w)"
  from h have "list_all (\<lambda>r. case r of Analyze t \<Rightarrow> 10 < length (trim t) | Rewrite t a \<Rightarrow> True) (calls w)"
    by (simp add: history_inv_def)
  with m have "10 < length (trim t)" by (auto simp: list_all_iff)
  with length_trim_le [of t] show ?thesis by simp
qed

text \<open>
  Claim C1, amended. In every state the page can reach, a change to a content whose
  stripped text has length at most 10 sets the analysis to \<^verbatim>\<open>null\<close>, leaves no timeout pending
  and makes no call. A stored analysis is the result of the analysis call that ended
  last, and every analysis call was made for a text longer than 10. (The premise on
  \<open>strip\<close> says that the built-in welcome text is longer than 10, as it is in a browser.)
\<close>

theorem short_text_clears_analysis:
  assumes "10 < length (trim (strip initial_content))"
    and "w = run strip es (constructor strip)"
  shows "(length (strip html) \<le> 10 \<longrightarrow>
            analysis (comp (edit strip html w)) = JNull \<and> timers (edit strip html w) = [] \<and>
            calls (edit strip html w) = calls w \<and> pending (edit strip html w) = pending w) \<and>
         (analysis (comp w) \<noteq> JNull \<longrightarrow>
            settled w \<noteq> [] \<and> last (settled w) = Inr (analysis (comp w))) \<and>
         (\<forall>t. Analyze t \<in> set (calls w) \<longrightarrow> 10 < length t)"
proof -
  have inv: "timer_inv w" "history_inv w"
    using assms invariants_run [OF timer_inv_constructor history_inv_constructor] by simp_all
  let ?w = "w\<lparr>comp := (comp w)\<lparr>editorContent := html\<rparr>\<rparr>"
  have t: "timer_inv ?w" using inv(1) by (simp add: timer_inv_comp_update)
  have short: "length (strip html) \<le> 10 \<Longrightarrow> \<not> 10 < length (trim (strip html))"
    using length_trim_le [of "strip html"] by simp
  have "length (strip html) \<le> 10 \<longrightarrow>
            analysis (comp (edit strip html w)) = JNull \<and> timers (edit strip html w) = [] \<and>
            calls (edit strip html w) = calls w \<and> pending (edit strip html w) = pending w"
    using short
    by (simp add: edit_def analysis_debounce_effect timers_debounce_effect [OF t] frame_debounce_effect)
  moreover have "analysis (comp w) \<noteq> JNull \<longrightarrow>
            settled w \<noteq> [] \<and> last (settled w) = Inr (analysis (comp w))"
    using inv(2) by (simp add: history_inv_def)
  moreover have "\<forall>t. Analyze t \<in> set (calls w) \<longrightarrow> 10 < length t"
    using analyze_calls_long [OF inv(2)] by blast
  ultimately show ?thesis by blast
qed

text \<open>
  Claim C2, amended. In every state the page can reach at most one timeout is pending,
  and its handle is older than the next one. A change of the content leaves exactly the
  new timeout, due 1000 ms later and carrying the new text, when the trimmed stripped
  text is longer than 10, and none otherwise; it makes no call. Before the 1000 ms have
  passed no timeout fires; after that the timeout makes exactly one analysis call, for
  the text of the last change, and nothing is pending any more.
\<close>

theorem debounce_single_timer:
  assumes "w = run strip es (constructor strip)"
  shows "length (timers w) \<le> 1 \<and>
         (\<forall>x \<in> set (timers w). fst x < nextHandle w) \<and>
         timers (edit strip html w) =
           (if 10 < length (trim (strip html))
            then [(nextHandle w, clock w + 1000, strip html)] else []) \<and>
         calls (edit strip html w) = calls w \<and>
         (d < 1000 \<longrightarrow>
            step strip (Timeout h) (step strip (Elapse d) (edit strip html w))
              = step strip (Elapse d) (edit strip html w)) \<and>
         (10 < length (trim (strip html)) \<and> 1000 \<le> d \<longrightarrow>
            calls (step strip (Timeout (nextHandle w)) (step strip (Elapse d) (edit strip html w)))
              = calls w @ [Analyze (strip html)] \<and>
            timers (step strip (Timeout (nextHandle w)) (step strip (Elapse d) (edit strip html w)))
              = [])"
proof -
  have inv: "timer_inv w"
    using assms timer_inv_run [OF timer_inv_constructor] by simp
  let ?w = "w\<lparr>comp := (comp w)\<lparr>editorContent := html\<rparr>\<rparr>"
  have t: "timer_inv ?w" using inv by (simp add: timer_inv_comp_update)
  have one: "length (timers w) \<le> 1" using inv by (simp add: timer_inv_def)
  have fresh: "\<forall>x \<in> set (timers w). fst x < nextHandle w"
    using inv by (auto simp: timer_inv_def list_all_iff)
  have tm: "timers (edit strip html w) =
           (if 10 < length (trim (strip html))
            then [(nextHandle w, clock w + 1000, strip html)] else [])"
    by (simp add: edit_def timers_debounce_effect [OF t])
  have cl: "calls (edit strip html w) = calls w" "clock (edit strip html w) = clock w"
    by (simp_all add: edit_def frame_debounce_effect)
  have early: "d < 1000 \<longrightarrow>
            step strip (Timeout h) (step strip (Elapse d) (edit strip html w))
              = step strip (Elapse d) (edit strip html w)"
    by (simp add: fire_def tm cl)
  have nonempty: "10 < length (trim (strip html)) \<Longrightarrow> strip html \<noteq> []"
    using length_trim_le [of "strip html"] by auto
  have due: "10 < length (trim (strip html)) \<and> 1000 \<le> d \<longrightarrow>
            calls (step strip (Timeout (nextHandle w)) (step strip (Elapse d) (edit strip html w)))
              = calls w @ [Analyze (strip html)] \<and>
            timers (step strip (Timeout (nextHandle w)) (step strip (Elapse d) (edit strip html w)))
              = []"
    using nonempty
    by (simp add: fire_def tm cl runAnalysis_begin_def clearTimeout_def)
  from one fresh tm cl(1) early due show ?thesis by blast
qed

lemma plain_text_initial_content:
  "plain_text initial_content =
     ''Welcome to Zen Writer! Start typing here and see the magic happen. For example, try writing: ''
       @ [CHR 0x22] @ ''i think ur idea is bad and we shud not proceed with it.'' @ [CHR 0x22]"
  by (simp add: plain_text_def initial_content_def)

lemma initial_content_long: "10 < length (trim (plain_text initial_content))"
  by code_simp

lemma initial_text_nonempty: "plain_text initial_content \<noteq> []"
  by (simp add: plain_text_initial_content)

lemma constructor_plain_text:
  "nextHandle (constructor plain_text) = 2 \<and> clock (constructor plain_text) = 0 \<and>
   calls (constructor plain_text) = [Analyze (plain_text initial_content)] \<and>
   analysis (comp (constructor plain_text)) = JNull"
  using initial_content_long initial_text_nonempty
  by (auto simp add: constructor_def debounce_effect_def runAnalysis_begin_def page_def fields_def
        setTimeout_def clearTimeout_def Let_def)

lemma trim_examples:
  "trim ''hello brave new world'' = ''hello brave new world'' \<and> trim ''hello you  '' = ''hello you'' \<and> trim ''hi'' = ''hi''"
  by code_simp

text \<open>
  A stripped text of length 11 that ends in two spaces: its trimmed length is 9, and no
  call is scheduled for it.
\<close>

theorem debounce_untrimmed_length_counterexample:
  "10 < length (plain_text ''<div>hello you  </div>'') \<and>
   timers (edit plain_text ''<div>hello you  </div>'' (constructor plain_text)) = [] \<and>
   analysis (comp (edit plain_text ''<div>hello you  </div>'' (constructor plain_text))) = JNull"
proof -
  have t: "timer_inv ((constructor plain_text)\<lparr>comp := (comp (constructor plain_text))\<lparr>editorContent := ''<div>hello you  </div>''\<rparr>\<rparr>)"
    using timer_inv_constructor by (simp add: timer_inv_comp_update)
  show ?thesis
    by (simp add: edit_def timers_debounce_effect [OF t] analysis_debounce_effect plain_text_def trim_examples)
qed

lemma constructor_plain_text_full:
  "constructor plain_text =
     \<lparr>comp = fields\<lparr>isLoading := True, debounceTimeout := Some 1\<rparr>, clock = 0,
      timers = [(1, 1000, plain_text initial_content)], nextHandle = 2,
      pending = [AwaitAnalysis], calls = [Analyze (plain_text initial_content)], settled = []\<rparr>"
  using initial_content_long initial_text_nonempty
  by (simp add: constructor_def debounce_effect_def runAnalysis_begin_def page_def fields_def
        setTimeout_def clearTimeout_def Let_def)

lemma welcome_differs: "''<div>hello brave new world</div>'' \<noteq> initial_content"
  by (simp add: initial_content_def)

text \<open>
  A call made for a long text is answered after the user has shortened the text: the
  page then shows an analysis although the stripped text has length 2, no timeout is
  pending and no call is awaited.
\<close>

theorem stale_answer_counterexample:
  "length (plain_text (editorContent (comp (run plain_text late_answer (constructor plain_text))))) \<le> 10 \<and>
   editorContent (comp (run plain_text late_answer (constructor plain_text))) = ''<div>hi</div>'' \<and>
   analysis (comp (run plain_text late_answer (constructor plain_text))) = sample_result \<and>
   sample_result \<noteq> JNull \<and>
   timers (run plain_text late_answer (constructor plain_text)) = [] \<and>
   pending (run plain_text late_answer (constructor plain_text)) = []"
  using welcome_differs
  by (simp add: run_def late_answer_def constructor_plain_text_full settle_def drop_nth_def
        runAnalysis_resume_def onContentChange_def set_editorContent_def edit_def
        debounce_effect_def clearTimeout_def setTimeout_def Let_def fire_def runAnalysis_begin_def
        fields_def plain_text_def trim_examples sample_result_def json_of_result_def)

lemma answered_page:
  "run plain_text [Settle 0 (Analysed sample_result)] (constructor plain_text) =
     \<lparr>comp = fields\<lparr>analysis := sample_result, isLoading := False, debounceTimeout := Some 1\<rparr>,
      clock = 0, timers = [(1, 1000, plain_text initial_content)], nextHandle = 2,
      pending = [], calls = [Analyze (plain_text initial_content)],
      settled = [Inr sample_result]\<rparr>"
  by (simp add: run_def constructor_plain_text_full settle_def drop_nth_def runAnalysis_resume_def
                fields_def)

lemma sample_result_not_null: "sample_result \<noteq> JNull"
  by (simp add: sample_result_def json_of_result_def)

theorem short_text_clears_analysis_witness:
  "10 < length (trim (plain_text initial_content)) \<and>
   length (plain_text ''<div>hi</div>'') \<le> 10 \<and>
   analysis (comp (edit plain_text ''<div>hi</div>''
      (run plain_text [Settle 0 (Analysed sample_result)] (constructor plain_text)))) = JNull \<and>
   timers (edit plain_text ''<div>hi</div>''
      (run plain_text [Settle 0 (Analysed sample_result)] (constructor plain_text))) = [] \<and>
   calls (edit plain_text ''<div>hi</div>''
      (run plain_text [Settle 0 (Analysed sample_result)] (constructor plain_text)))
     = [Analyze (plain_text initial_content)] \<and>
   analysis (comp (run plain_text [Settle 0 (Analysed sample_result)] (constructor plain_text)))
     \<noteq> JNull \<and>
   last (settled (run plain_text [Settle 0 (Analysed sample_result)] (constructor plain_text)))
     = Inr sample_result \<and>
   10 < length (plain_text initial_content)"
  using short_text_clears_analysis [where strip = plain_text
          and es = "[Settle 0 (Analysed sample_result)]"
          and w = "run plain_text [Settle 0 (Analysed sample_result)] (constructor plain_text)"
          and html = "''<div>hi</div>''"]
        initial_content_long sample_result_not_null
  by (simp add: answered_page plain_text_def)

theorem debounce_single_timer_witness:
  "timers (constructor plain_text) = [(1, 1000, plain_text initial_content)] \<and>
   nextHandle (constructor plain_text) = 2 \<and>
   timers (edit plain_text ''<div>hello brave new world</div>'' (constructor plain_text))
     = [(2, 1000, ''hello brave new world'')] \<and>
   step plain_text (Timeout 2) (step plain_text (Elapse 999)
       (edit plain_text ''<div>hello brave new world</div>'' (constructor plain_text)))
     = step plain_text (Elapse 999)
         (edit plain_text ''<div>hello brave new world</div>'' (constructor plain_text)) \<and>
   calls (step plain_text (Timeout 2) (step plain_text (Elapse 1000)
       (edit plain_text ''<div>hello brave new world</div>'' (constructor plain_text))))
     = [Analyze (plain_text initial_content), Analyze ''hello brave new world''] \<and>
   timers (step plain_text (Timeout 2) (step plain_text (Elapse 1000)
       (edit plain_text ''<div>hello brave new world</div>'' (constructor plain_text)))) = []"
  using debounce_single_timer [of "constructor plain_text" plain_text "[]"
          "''<div>hello brave new world</div>''" 999 2]
        debounce_single_timer [of "constructor plain_text" plain_text "[]"
          "''<div>hello brave new world</div>''" 1000 2]
  by (simp add: run_def constructor_plain_text_full plain_text_def trim_examples)

subsection \<open>Corrections, colours and parsing\<close>

lemma editorContent_applyGrammarCorrection:
  "editorContent (comp (applyGrammarCorrection strip m c w)) = replace (editorContent (comp w)) m c"
  by (simp add: applyGrammarCorrection_def editorContent_set_editorContent)

lemma getSubstitution_plain:
  "CHR ''$'' \<notin> set r \<Longrightarrow> getSubstitution m pre post r = r"
  by (induction m pre post r rule: getSubstitution.induct) auto

text \<open>
  A correction without a dollar sign is inserted as it stands, which covers the example
  of the specification; a mistake that is not in the document changes nothing.
\<close>

lemma replace_without_dollar:
  "\<not> has_dollar c \<Longrightarrow> replace content m c = literal_replace_first content m c"
  by (simp add: replace_def literal_replace_first_def has_dollar_def getSubstitution_plain
           split: option.splits)

lemma is_prefix_append: "is_prefix p s \<longleftrightarrow> (\<exists>r. s = p @ r)"
  by (induction p s rule: is_prefix.induct) auto

text \<open>
  \<open>split_first\<close> finds an occurrence of the pattern when there is one, and the leftmost.
\<close>

lemma split_first_Some:
  "split_first pat s = Some (pre, post) \<Longrightarrow> s = pre @ pat @ post"
proof (induction s arbitrary: pre)
  case Nil
  then show ?case by (simp split: if_splits)
next
  case (Cons c cs)
  show ?case
  proof (cases "is_prefix pat (c # cs)")
    case True
    then obtain r where r: "c # cs = pat @ r" by (auto simp: is_prefix_append)
    from True Cons.prems have "pre = []" "post = drop (length pat) (c # cs)" by simp_all
    with r show ?thesis by simp
  next
    case False
    with Cons.prems obtain pre' where "split_first pat cs = Some (pre', post)" "pre = c # pre'"
      by (auto split: option.splits)
    with Cons.IH show ?thesis by simp
  qed
qed

lemma split_first_None:
  "split_first pat s = None \<Longrightarrow> s \<noteq> pre @ pat @ post"
proof (induction s arbitrary: pre)
  case Nil
  then show ?case by (simp split: if_splits)
next
  case (Cons c cs)
  from Cons.prems have np: "\<not> is_prefix pat (c # cs)" and rest: "split_first pat cs = None"
    by (auto split: if_splits option.splits)
  show ?case
  proof (cases pre)
    case Nil
    with np show ?thesis by (auto simp: is_prefix_append)
  next
    case (Cons a pre')
    with Cons.IH [OF rest, of pre'] show ?thesis by auto
  qed
qed

lemma split_first_earliest:
  "split_first pat s = Some (pre, post) \<Longrightarrow> s = p @ pat @ q \<Longrightarrow> length pre \<le> length p"
proof (induction s arbitrary: pre p)
  case Nil
  then show ?case by (simp split: if_splits)
next
  case (Cons c cs)
  show ?case
  proof (cases "is_prefix pat (c # cs)")
    case True
    with Cons.prems(1) have "pre = []" by simp
    then show ?thesis by simp
  next
    case False
    with Cons.prems(1) obtain pre' where pre': "split_first pat cs = Some (pre', post)" "pre = c # pre'"
      by (auto split: option.splits)
    from False Cons.prems(2) obtain p' where p': "p = c # p'" "cs = p' @ pat @ q"
      by (cases p) (auto simp: is_prefix_append)
    from Cons.IH [OF pre'(1) p'(2)] pre'(2) p'(1) show ?thesis by simp
  qed
qed

lemma replace_absent: "split_first m content = None \<Longrightarrow> replace content m c = content"
  by (simp add: replace_def)

lemma replace_example:
  "replace ''i think ur idea'' ''ur'' ''your'' = ''i think your idea'' \<and>
   replace ''i think my idea'' ''ur'' ''your'' = ''i think my idea''"
  by (simp add: replace_def)

lemma typo_page_content: "editorContent (comp typo_page) = ''<div>i need teh $$ now</div>''"
  by (simp add: typo_page_def onContentChange_def editorContent_set_editorContent)

text \<open>
  Claim C5. The correction \<open>I need the $$\<close> for the mistake \<open>i need teh $$\<close>: the program
  writes one dollar sign into the document, where the replacement of the first occurrence
  by the correction as it stands has two.
\<close>

theorem applyGrammarCorrection_expands_dollar:
  "editorContent (comp (applyGrammarCorrection plain_text ''i need teh $$'' ''I need the $$'' typo_page))
     = ''<div>I need the $ now</div>'' \<and>
   literal_replace_first (editorContent (comp typo_page)) ''i need teh $$'' ''I need the $$''
     = ''<div>I need the $$ now</div>''"
  by (simp add: editorContent_applyGrammarCorrection typo_page_content replace_def
                literal_replace_first_def)

lemma toneColorMap_values: "\<forall>(k, v) \<in> set toneColorMap. v \<noteq> []"
  by (simp add: toneColorMap_def)

text \<open>
  For a well-typed analysis the colour is the table entry of the lower-cased tone name,
  the default when the name is neither in the table nor a member of \<^verbatim>\<open>Object.prototype\<close>.
\<close>

lemma toneColorClass_result:
  "toneColorClass (json_of_result r) =
     (case map_of toneColorMap (toLowerCase (name (tone r))) of
        Some c \<Rightarrow> Inr (Str c)
      | None \<Rightarrow> if toLowerCase (name (tone r)) \<in> set object_prototype_members
                then Inr (Inherited (toLowerCase (name (tone r))))
                else Inr (Str default_color))"
proof (cases "map_of toneColorMap (toLowerCase (name (tone r)))")
  case None
  then show ?thesis
    by (auto simp: toneColorClass_def json_of_result_def json_of_tone_def lookup_or_default_def
                   Let_def object_prototype_members_def)
next
  case (Some c)
  then have "(toLowerCase (name (tone r)), c) \<in> set toneColorMap" by (rule map_of_SomeD)
  with toneColorMap_values have "c \<noteq> []" by auto
  moreover from Some have "toLowerCase (name (tone r)) \<noteq> []"
    by (auto simp: toneColorMap_def split: if_splits)
  ultimately show ?thesis using Some
    by (simp add: toneColorClass_def json_of_result_def json_of_tone_def lookup_or_default_def Let_def)
qed

lemma toneColorClass_null: "toneColorClass JNull = Inr (Str default_color)"
  by (simp add: toneColorClass_def)

lemma tone_lower: "toLowerCase ''Constructor'' = ''constructor'' \<and> toLowerCase ''Angry'' = ''angry'' \<and> toLowerCase ''Wistful'' = ''wistful''"
  by code_simp

text \<open>
  Claim C8. The tone name \<open>Constructor\<close> is not in the table, and the colour computed for it
  is not the neutral default but the member \<open>constructor\<close> that every object inherits.
\<close>

theorem toneColorClass_inherited_member:
  "toneColorClass (json_of_result \<lparr>tone = \<lparr>name = ''Constructor'', score = 50\<rparr>,
      suggestions = [], grammarMistakes = []\<rparr>) = Inr (Inherited ''constructor'') \<and>
   map_of toneColorMap (toLowerCase ''Constructor'') = None \<and>
   Inherited ''constructor'' \<noteq> Str default_color"
  by (simp add: toneColorClass_result tone_lower toneColorMap_def object_prototype_members_def)

lemma toneColorClass_examples:
  "toneColorClass (json_of_result \<lparr>tone = \<lparr>name = ''Angry'', score = 50\<rparr>,
      suggestions = [], grammarMistakes = []\<rparr>) = Inr (Str ''bg-red-600'') \<and>
   toneColorClass (json_of_result \<lparr>tone = \<lparr>name = ''Wistful'', score = 50\<rparr>,
      suggestions = [], grammarMistakes = []\<rparr>) = Inr (Str ''bg-gray-400 dark:bg-gray-600'')"
  by (simp add: toneColorClass_result tone_lower toneColorMap_def object_prototype_members_def default_color_def)

lemma trim_leading: "is_white_space c \<Longrightarrow> trim (c # s) = trim s"
  by (simp add: trim_def)

lemma toneColorClass_reads_tone:
  "map_of props ''tone'' = Some tn \<Longrightarrow>
     toneColorClass (JObject props) = toneColorClass (JObject [(''tone'', tn)])"
  by (simp add: toneColorClass_def)

text \<open>
  Claim C7, amended. \<^verbatim>\<open>analyzeText\<close> trims the answer of the remote call the way the language
  does, so white space in front of it, the no-break space included, is dropped; it fails
  with a parse error exactly when the parser rejects the trimmed answer. Every value the
  parser accepts, with or without the fields \<open>tone\<close>, \<open>suggestions\<close> and \<open>grammarMistakes\<close>,
  is returned as it is, and \<^verbatim>\<open>runAnalysis\<close> stores it, sets no error and resets \<open>isLoading\<close>.
  The colour of a stored object with a \<open>tone\<close> depends on that field alone.
\<close>

theorem analyzeText_parse_error:
  assumes "generate (analyzeText_prompt text) = Inr response"
  shows "(analyzeText generate parse text = Inl ParseError \<longleftrightarrow> parse (trim response) = None) \<and>
         (\<forall>ch. is_white_space ch \<longrightarrow> trim (ch # response) = trim response) \<and>
         (\<forall>v. parse (trim response) = Some v \<longrightarrow>
            analyzeText generate parse text = Inr v \<and>
            runAnalysis_resume (analyzeText generate parse text) c
              = c\<lparr>analysis := v, isLoading := False\<rparr>) \<and>
         (\<forall>props tn. map_of props ''tone'' = Some tn \<longrightarrow>
            toneColorClass (JObject props) = toneColorClass (JObject [(''tone'', tn)]))"
proof -
  have "analyzeText generate parse text = Inl ParseError \<longleftrightarrow> parse (trim response) = None"
    using assms by (auto simp: analyzeText_def split: option.splits)
  moreover have "\<forall>ch. is_white_space ch \<longrightarrow> trim (ch # response) = trim response"
    by (simp add: trim_leading)
  moreover have "\<forall>v. parse (trim response) = Some v \<longrightarrow>
            analyzeText generate parse text = Inr v \<and>
            runAnalysis_resume (analyzeText generate parse text) c
              = c\<lparr>analysis := v, isLoading := False\<rparr>"
    using assms by (auto simp: analyzeText_def runAnalysis_resume_def)
  moreover have "\<forall>props tn. map_of props ''tone'' = Some tn \<longrightarrow>
            toneColorClass (JObject props) = toneColorClass (JObject [(''tone'', tn)])"
    using toneColorClass_reads_tone by blast
  ultimately show ?thesis by blast
qed

lemma sample_trim:
  \<open>trim '' {"suggestions":[],"grammarMistakes":[]} '' = ''{"suggestions":[],"grammarMistakes":[]}'' \<and>
   trim ''oops {'' = ''oops {'' \<and>
   trim padded_answer = ''{"suggestions":[],"grammarMistakes":[]}''\<close>
  by code_simp

lemma sample_parse_values:
  \<open>sample_parse ''{"suggestions":[],"grammarMistakes":[]}''
     = Some (JObject [(''suggestions'', JArray []), (''grammarMistakes'', JArray [])]) \<and>
   sample_parse ''oops {'' = None \<and>
   sample_parse padded_answer = None\<close>
  by code_simp

lemma tone_only_colour:
  "toneColorClass (JObject [(''tone'', json_of_tone \<lparr>name = ''Angry'', score = 50\<rparr>)])
     = Inr (Str ''bg-red-600'')"
  by (simp add: toneColorClass_def json_of_tone_def tone_lower lookup_or_default_def
                toneColorMap_def)

theorem analyzeText_parse_error_witness:
  \<open>analyzeText (\<lambda>p. Inr ''oops {'') sample_parse ''some text'' = Inl ParseError \<and>
   analyzeText (\<lambda>p. Inr '' {"suggestions":[],"grammarMistakes":[]} '') sample_parse ''some text''
     = Inr (JObject [(''suggestions'', JArray []), (''grammarMistakes'', JArray [])]) \<and>
   runAnalysis_resume
       (analyzeText (\<lambda>p. Inr '' {"suggestions":[],"grammarMistakes":[]} '') sample_parse ''some text'')
       (showing\<lparr>isLoading := True, error := None\<rparr>)
     = showing\<lparr>isLoading := True, error := None,
               analysis := JObject [(''suggestions'', JArray []), (''grammarMistakes'', JArray [])],
               isLoading := False\<rparr> \<and>
   is_white_space (CHR 0xA0) \<and> trim (CHR 0xA0 # ''oops {'') = ''oops {'' \<and>
   toneColorClass (JObject [(''grammarMistakes'', JArray []),
                            (''tone'', json_of_tone \<lparr>name = ''Angry'', score = 50\<rparr>)])
     = Inr (Str ''bg-red-600'')\<close>
proof -
  note bad = analyzeText_parse_error [of "\<lambda>p. Inr ''oops {''" "''some text''" "''oops {''"
      sample_parse "showing\<lparr>isLoading := True, error := None\<rparr>", OF refl]
  note good = analyzeText_parse_error
      [of \<open>\<lambda>p. Inr '' {"suggestions":[],"grammarMistakes":[]} ''\<close> "''some text''"
          \<open>'' {"suggestions":[],"grammarMistakes":[]} ''\<close> sample_parse
          "showing\<lparr>isLoading := True, error := None\<rparr>", OF refl]
  have nbsp: "is_white_space (CHR 0xA0)" by (simp add: is_white_space_def)
  from bad [THEN conjunct1]
  have a: "analyzeText (\<lambda>p. Inr ''oops {'') sample_parse ''some text'' = Inl ParseError"
    by (simp add: sample_trim sample_parse_values)
  from bad [THEN conjunct2, THEN conjunct1] nbsp
  have b: "trim (CHR 0xA0 # ''oops {'') = ''oops {''"
    by (simp add: sample_trim)
  from good [THEN conjunct2, THEN conjunct2, THEN conjunct1]
  have c: \<open>analyzeText (\<lambda>p. Inr '' {"suggestions":[],"grammarMistakes":[]} '') sample_parse ''some text''
       = Inr (JObject [(''suggestions'', JArray []), (''grammarMistakes'', JArray [])]) \<and>
     runAnalysis_resume
       (analyzeText (\<lambda>p. Inr '' {"suggestions":[],"grammarMistakes":[]} '') sample_parse ''some text'')
       (showing\<lparr>isLoading := True, error := None\<rparr>)
     = showing\<lparr>isLoading := True, error := None,
               analysis := JObject [(''suggestions'', JArray []), (''grammarMistakes'', JArray [])],
               isLoading := False\<rparr>\<close>
    by (simp add: sample_trim sample_parse_values runAnalysis_resume_def)
  have d: "toneColorClass (JObject [(''grammarMistakes'', JArray []),
                            (''tone'', json_of_tone \<lparr>name = ''Angry'', score = 50\<rparr>)])
     = toneColorClass (JObject [(''tone'', json_of_tone \<lparr>name = ''Angry'', score = 50\<rparr>)])"
    by (rule good [THEN conjunct2, THEN conjunct2, THEN conjunct2, rule_format]) simp
  from d have e: "toneColorClass (JObject [(''grammarMistakes'', JArray []),
                            (''tone'', json_of_tone \<lparr>name = ''Angry'', score = 50\<rparr>)])
     = Inr (Str ''bg-red-600'')"
    by (simp only: tone_only_colour)
  from a b c e nbsp show ?thesis by blast
qed

text \<open>
  The padded answer is no JSON text, and \<^verbatim>\<open>analyzeText\<close> accepts it. What it returns has no
  \<open>tone\<close>: \<^verbatim>\<open>runAnalysis\<close> stores it without an error, and computing the colour of the stored
  analysis throws.
\<close>

theorem analyzeText_padded_answer_counterexample:
  "sample_parse padded_answer = None \<and>
   analyzeText (\<lambda>p. Inr padded_answer) sample_parse ''some text''
     = Inr (JObject [(''suggestions'', JArray []), (''grammarMistakes'', JArray [])]) \<and>
   analyzeText (\<lambda>p. Inr padded_answer) sample_parse ''some text'' \<noteq> Inl ParseError \<and>
   error (runAnalysis_resume (analyzeText (\<lambda>p. Inr padded_answer) sample_parse ''some text'')
            (showing\<lparr>isLoading := True, error := None\<rparr>)) = None \<and>
   toneColorClass
     (analysis (runAnalysis_resume (analyzeText (\<lambda>p. Inr padded_answer) sample_parse ''some text'')
                  (showing\<lparr>isLoading := True, error := None\<rparr>))) = Inl TypeError"
proof -
  have r: "analyzeText (\<lambda>p. Inr padded_answer) sample_parse ''some text''
     = Inr (JObject [(''suggestions'', JArray []), (''grammarMistakes'', JArray [])])"
    by (simp add: analyzeText_def sample_trim sample_parse_values)
  show ?thesis
    by (simp add: r sample_parse_values runAnalysis_resume_def toneColorClass_def)
qed

end
